theory Spec2Isabelle
  imports Complex_Main
begin

section \<open>Budget scaling engine: revenue tracker and budget updater\<close>

text \<open>
  A shallow embedding of \<^verbatim>\<open>src/services/revenue-tracker.ts\<close> (class
  \<^verbatim>\<open>RevenueTracker\<close>) and of the budget updater service (class
  \<^verbatim>\<open>BudgetUpdater\<close>).

  Conventions of the embedding:
  \<^item> a TypeScript \<^verbatim>\<open>number\<close> is a \<^typ>\<open>real\<close>: the arithmetic is the exact one,
    without the rounding of IEEE doubles and without NaN or the infinities; a value
    returned by \<^verbatim>\<open>Math.round\<close> or \<^verbatim>\<open>Math.ceil\<close>, and a budget limit, is an
    \<^typ>\<open>int\<close>;
  \<^item> an \<^verbatim>\<open>async\<close> function returns the settled outcome of its promise, a value of
    \<open>js_error + 'a\<close> (\<open>Inl\<close> when the promise rejects), together with the lines
    it wrote to the console;
  \<^item> the console is a list of structured entries that carry the interpolated values;
    the formatting of \<^verbatim>\<open>toFixed\<close> and \<^verbatim>\<open>toLocaleString\<close> is not modelled;
  \<^item> the current date, the process environment and the network are parameters.
\<close>

subsection \<open>Data model\<close>

record ProductRevenue =
  dealio :: real
  quotely :: real
  shopflow :: real
  shoplink :: real

record RevenueData =
  totalMRR :: real
  revenueByProduct :: ProductRevenue
  oneTimeRevenue :: real
  totalRevenue :: real

record CeoLimits =
  maxSpending :: int

record CfoLimits =
  maxCostOptimization :: int
  maxBudgetAllocation :: int

record CtoLimits =
  maxInfrastructureCost :: int

record BudgetLimits =
  ceo :: CeoLimits
  cfo :: CfoLimits
  cto :: CtoLimits

text \<open>What a \<^verbatim>\<open>catch\<close> clause can receive.\<close>

datatype js_error =
  FetchFailed int        \<comment> \<open>\<^verbatim>\<open>new Error(`Failed to fetch analytics: ${response.status}`)\<close>\<close>
| TransportError string  \<comment> \<open>\<^verbatim>\<open>axios.get\<close> rejected: timeout, DNS, connection refused\<close>
| TypeError              \<comment> \<open>a property read on \<^verbatim>\<open>null\<close> or \<^verbatim>\<open>undefined\<close>\<close>
| Thrown string          \<comment> \<open>any other exception, with its message\<close>

text \<open>
  One entry of a recommendation list. The two fixed pairs of sentences are kept as
  strings; the template string of the third branch is kept as the three values it
  interpolates: \<^verbatim>\<open>scaleFactor\<close>, \<^verbatim>\<open>nextMilestone\<close> and
  \<^verbatim>\<open>nextMilestone / this.baseRevenue\<close>.
\<close>

datatype recommendation =
  Sentence string
| Progress real int real

datatype console_entry =
  ErrorFetchingRevenueData js_error
| BudgetUpdateRecommended
| RevenueLine real
| ScaleFactorLine real
| CeoMaxSpendingLine int
| CfoCostOptimizationLine int
| CfoBudgetAllocationLine int
| CtoInfrastructureLine int
| RunningDailyBudgetUpdate
| BudgetsUpdatedSuccessfully
| BudgetUpdateFailed "js_error option"

record RevenueReport =
  revenue :: RevenueData
  scaleFactor :: real
  budgets :: BudgetLimits
  recommendations :: "recommendation list"

record UpdateResult =
  success :: bool
  budgets :: BudgetLimits
  scaleFactor :: real
  revenue :: real
  error :: "js_error option"

record BudgetUpdater =
  lastUpdateDate :: "string option"

text \<open>
  The body of an HTTP response, as far as the fetcher reads it: \<open>NoData\<close> when
  \<^verbatim>\<open>response.data\<close> is \<^verbatim>\<open>null\<close> or \<^verbatim>\<open>undefined\<close>, otherwise the
  \<^verbatim>\<open>financial\<close> member of the payload when there is one, as a dictionary of its
  numeric fields.
\<close>

datatype response_data =
  NoData
| Data "(string \<rightharpoonup> real) option"

datatype axios_outcome =
  Rejected string
| Response int response_data

record environment =
  SUPER_ADMIN_URL :: "string option"
  axios_get :: "string \<Rightarrow> axios_outcome"

subsection \<open>JavaScript operators\<close>

text \<open>\<^verbatim>\<open>Math.round\<close> rounds to the nearest integer, a tie towards plus infinity.\<close>

definition Math_round :: "real \<Rightarrow> int" where
  "Math_round x = \<lfloor>x + 1 / 2\<rfloor>"

definition Math_ceil :: "real \<Rightarrow> int" where
  "Math_ceil x = \<lceil>x\<rceil>"

text \<open>\<^verbatim>\<open>v || 0\<close> on a field that is absent or a number: zero is the only falsy number.\<close>

definition or_zero :: "real option \<Rightarrow> real" where
  "or_zero v = (case v of None \<Rightarrow> 0 | Some x \<Rightarrow> if x = 0 then 0 else x)"

text \<open>\<^verbatim>\<open>a || b\<close> on an optional string: the empty string is falsy.\<close>

definition or_string :: "string option \<Rightarrow> string \<Rightarrow> string" where
  "or_string a b = (case a of None \<Rightarrow> b | Some s \<Rightarrow> if s = [] then b else s)"

subsection \<open>RevenueTracker\<close>

definition baseRevenue :: real where
  "baseRevenue = 1000"

definition maxScaleFactor :: real where
  "maxScaleFactor = 10"

definition minScaleFactor :: real where
  "minScaleFactor = 1"

definition baseBudgets :: BudgetLimits where
  "baseBudgets =
     \<lparr>ceo = \<lparr>maxSpending = 300\<rparr>,
      cfo = \<lparr>maxCostOptimization = 150, maxBudgetAllocation = 300\<rparr>,
      cto = \<lparr>maxInfrastructureCost = 150\<rparr>\<rparr>"

definition calculateScaleFactor :: "real \<Rightarrow> real" where
  "calculateScaleFactor monthlyRevenue =
     (let scaleFactor = monthlyRevenue / baseRevenue in
      if scaleFactor > maxScaleFactor then maxScaleFactor
      else if scaleFactor < minScaleFactor then minScaleFactor
      else scaleFactor)"

definition calculateBudgetLimits :: "real \<Rightarrow> BudgetLimits" where
  "calculateBudgetLimits monthlyRevenue =
     (let scaleFactor = calculateScaleFactor monthlyRevenue in
      \<lparr>ceo = \<lparr>maxSpending =
                Math_round (real_of_int (maxSpending (ceo baseBudgets)) * scaleFactor)\<rparr>,
       cfo = \<lparr>maxCostOptimization =
                Math_round (real_of_int (maxCostOptimization (cfo baseBudgets)) * scaleFactor),
              maxBudgetAllocation =
                Math_round (real_of_int (maxBudgetAllocation (cfo baseBudgets)) * scaleFactor)\<rparr>,
       cto = \<lparr>maxInfrastructureCost =
                Math_round (real_of_int (maxInfrastructureCost (cto baseBudgets)) * scaleFactor)\<rparr>\<rparr>)"

definition zeroRevenue :: RevenueData where
  "zeroRevenue =
     \<lparr>totalMRR = 0,
      revenueByProduct = \<lparr>dealio = 0, quotely = 0, shopflow = 0, shoplink = 0\<rparr>,
      oneTimeRevenue = 0,
      totalRevenue = 0\<rparr>"

text \<open>
  The \<^verbatim>\<open>try\<close> block of \<^verbatim>\<open>fetchRevenueData\<close>, from the settled outcome of
  \<^verbatim>\<open>axios.get\<close>: \<open>Inl\<close> is the exception that leaves the block. With
  \<^verbatim>\<open>validateStatus: () => true\<close> no status makes \<^verbatim>\<open>axios.get\<close> reject.
\<close>

definition fetchRevenueData_try :: "axios_outcome \<Rightarrow> js_error + RevenueData" where
  "fetchRevenueData_try response =
     (case response of
        Rejected msg \<Rightarrow> Inl (TransportError msg)
      | Response status data \<Rightarrow>
          if status \<noteq> 200 then Inl (FetchFailed status)
          else (case data of
                  NoData \<Rightarrow> Inl TypeError
                | Data member \<Rightarrow>
                    (let financial = (case member of None \<Rightarrow> Map.empty | Some f \<Rightarrow> f);
                         totalMRR = or_zero (financial ''mrr'');
                         revenueByProduct =
                           \<lparr>dealio = or_zero (financial ''dealioMRR''),
                            quotely = or_zero (financial ''quotelyMRR''),
                            shopflow = or_zero (financial ''shopflowMRR''),
                            shoplink = or_zero (financial ''shoplinkMRR'')\<rparr>;
                         oneTimeRevenue = or_zero (financial ''oneTimeRevenue'');
                         totalRevenue = totalMRR + oneTimeRevenue
                     in Inr \<lparr>totalMRR = totalMRR,
                             revenueByProduct = revenueByProduct,
                             oneTimeRevenue = oneTimeRevenue,
                             totalRevenue = totalRevenue\<rparr>)))"

definition fetchRevenueData ::
  "string option \<Rightarrow> environment \<Rightarrow> (js_error + RevenueData) \<times> console_entry list" where
  "fetchRevenueData superAdminUrl env =
     (let url = or_string superAdminUrl
                  (or_string (SUPER_ADMIN_URL env) ''https://super-admin.doublevision.company'')
      in case fetchRevenueData_try (axios_get env (url @ ''/api/analytics'')) of
           Inr data \<Rightarrow> (Inr data, [])
         | Inl e \<Rightarrow> (Inr zeroRevenue, [ErrorFetchingRevenueData e]))"

definition generateRevenueReport ::
  "environment \<Rightarrow> (js_error + RevenueReport) \<times> console_entry list" where
  "generateRevenueReport env =
     (case fetchRevenueData None env of
        (Inl e, out) \<Rightarrow> (Inl e, out)
      | (Inr revenue', out) \<Rightarrow>
          (let scaleFactor = calculateScaleFactor (totalMRR revenue');
               budgets = calculateBudgetLimits (totalMRR revenue');
               recommendations =
                 (if totalMRR revenue' < baseRevenue then
                    [Sentence ''Revenue below base threshold. Maintain conservative budgets.'',
                     Sentence ''Focus on revenue-generating activities.'']
                  else if scaleFactor \<ge> maxScaleFactor then
                    [Sentence ''Revenue at maximum scaling threshold. Budgets capped at 10x.'',
                     Sentence ''Consider strategic investments beyond base scaling.'']
                  else
                    (let nextMilestone = Math_ceil (totalMRR revenue' / 1000) * 1000
                     in [Progress scaleFactor nextMilestone
                           (real_of_int nextMilestone / baseRevenue)]))
           in (Inr \<lparr>RevenueReport.revenue = revenue',
                    RevenueReport.scaleFactor = scaleFactor,
                    RevenueReport.budgets = budgets,
                    recommendations = recommendations\<rparr>, out)))"

subsection \<open>BudgetUpdater\<close>

text \<open>
  The body of \<^verbatim>\<open>updateBudgets\<close> from the point where the promise of
  \<^verbatim>\<open>this.revenueTracker.generateRevenueReport()\<close> has settled: the first argument is
  that outcome, \<open>today\<close> is \<^verbatim>\<open>new Date().toISOString().split('T')[0]\<close>.
  The result is the returned object, the updater after the call and the console lines
  written.
\<close>

definition updateBudgets_settled ::
  "js_error + RevenueReport \<Rightarrow> string \<Rightarrow> BudgetUpdater
     \<Rightarrow> UpdateResult \<times> BudgetUpdater \<times> console_entry list" where
  "updateBudgets_settled outcome today this =
     (case outcome of
        Inr report \<Rightarrow>
          (let budgets = RevenueReport.budgets report;
               scaleFactor = RevenueReport.scaleFactor report;
               revenue = totalMRR (RevenueReport.revenue report)
           in if lastUpdateDate this = Some today \<and> scaleFactor \<le> 11 / 10 then
                (\<lparr>success = True, budgets = budgets, scaleFactor = scaleFactor,
                  revenue = revenue, error = None\<rparr>,
                 this, [])
              else
                (\<lparr>success = True, budgets = budgets, scaleFactor = scaleFactor,
                  revenue = revenue, error = None\<rparr>,
                 this\<lparr>lastUpdateDate := Some today\<rparr>,
                 [BudgetUpdateRecommended,
                  RevenueLine revenue,
                  ScaleFactorLine scaleFactor,
                  CeoMaxSpendingLine (maxSpending (ceo budgets)),
                  CfoCostOptimizationLine (maxCostOptimization (cfo budgets)),
                  CfoBudgetAllocationLine (maxBudgetAllocation (cfo budgets)),
                  CtoInfrastructureLine (maxInfrastructureCost (cto budgets))]))
      | Inl e \<Rightarrow>
          (\<lparr>success = False,
            budgets = \<lparr>ceo = \<lparr>maxSpending = 300\<rparr>,
                       cfo = \<lparr>maxCostOptimization = 150, maxBudgetAllocation = 300\<rparr>,
                       cto = \<lparr>maxInfrastructureCost = 150\<rparr>\<rparr>,
            scaleFactor = 1,
            revenue = 0,
            error = Some e\<rparr>,
           this, []))"

text \<open>\<^verbatim>\<open>updateBudgets\<close> itself: it awaits the report, then runs the body above.\<close>

definition updateBudgets ::
  "environment \<Rightarrow> string \<Rightarrow> BudgetUpdater
     \<Rightarrow> UpdateResult \<times> BudgetUpdater \<times> console_entry list" where
  "updateBudgets env today this =
     (case generateRevenueReport env of
        (outcome, out) \<Rightarrow>
          (case updateBudgets_settled outcome today this of
             (result, this', out') \<Rightarrow> (result, this', out @ out')))"

text \<open>
  \<^verbatim>\<open>runDailyUpdate\<close>, the caller of \<^verbatim>\<open>updateBudgets\<close> in the repository: it reads
  only \<^verbatim>\<open>result.success\<close> to decide what to print.
\<close>

definition runDailyUpdate ::
  "environment \<Rightarrow> string \<Rightarrow> BudgetUpdater \<Rightarrow> BudgetUpdater \<times> console_entry list" where
  "runDailyUpdate env today this =
     (case updateBudgets env today this of
        (result, this', out) \<Rightarrow>
          (this',
           [RunningDailyBudgetUpdate] @ out @
           (if success result then
              [BudgetsUpdatedSuccessfully,
               ScaleFactorLine (scaleFactor result),
               RevenueLine (revenue result)]
            else [BudgetUpdateFailed (error result)])))"

subsection \<open>Notions of the specification\<close>

text \<open>The clamp of the specification: below \<open>lo\<close> gives \<open>lo\<close>, above \<open>hi\<close> gives \<open>hi\<close>.\<close>

definition clamp :: "real \<Rightarrow> real \<Rightarrow> real \<Rightarrow> real" where
  "clamp x lo hi = max lo (min hi x)"


text \<open>The settled outcome of the one request that \<^verbatim>\<open>fetchRevenueData\<close> issues.\<close>

definition analytics_request :: "string option \<Rightarrow> environment \<Rightarrow> axios_outcome" where
  "analytics_request superAdminUrl env =
     axios_get env
       (or_string superAdminUrl
          (or_string (SUPER_ADMIN_URL env) ''https://super-admin.doublevision.company'')
        @ ''/api/analytics'')"

text \<open>A field of the remote payload, zero when the payload does not have it.\<close>

definition field_or_default :: "(string \<rightharpoonup> real) \<Rightarrow> string \<Rightarrow> real" where
  "field_or_default financial name = (case financial name of None \<Rightarrow> 0 | Some v \<Rightarrow> v)"


section \<open>Properties\<close>

subsection \<open>Rounding\<close>

lemma Math_round_mono: "x \<le> y \<Longrightarrow> Math_round x \<le> Math_round y"
  unfolding Math_round_def by (simp add: floor_mono)




subsection \<open>The scale factor\<close>

lemma calculateScaleFactor_clamp: "calculateScaleFactor r = clamp (r / 1000) 1 10"
  by (simp add: calculateScaleFactor_def clamp_def baseRevenue_def maxScaleFactor_def
      minScaleFactor_def Let_def)


text \<open>
  C4. For every revenue \<open>r \<ge> 0\<close> the scale factor is \<open>clamp (r / 1000) 1 10\<close>, and it
  is \<open>r / 1000\<close> itself, unrounded, when that lies between 1 and 10; for every
  negative \<open>r\<close> the scale factor is 1.
\<close>

theorem calculateScaleFactor_spec:
  "(0 \<le> r \<longrightarrow> calculateScaleFactor r = clamp (r / 1000) 1 10)
   \<and> (0 \<le> r \<and> 1 \<le> r / 1000 \<and> r / 1000 \<le> 10 \<longrightarrow> calculateScaleFactor r = r / 1000)
   \<and> (r < 0 \<longrightarrow> calculateScaleFactor r = 1)"
  by (simp add: calculateScaleFactor_clamp clamp_def)

theorem calculateScaleFactor_spec_witness:
  "(0::real) \<le> 2370 \<and> (1::real) \<le> 2370 / 1000 \<and> (2370::real) / 1000 \<le> 10
   \<and> calculateScaleFactor 2370 = clamp (2370 / 1000) 1 10
   \<and> calculateScaleFactor 2370 = 237 / 100
   \<and> (-5::real) < 0 \<and> calculateScaleFactor (-5) = 1"
  using calculateScaleFactor_spec [of 2370] calculateScaleFactor_spec [of "-5"]
  by simp

subsection \<open>The budget limits\<close>

lemma calculateBudgetLimits_eq:
  "calculateBudgetLimits r =
     \<lparr>ceo = \<lparr>maxSpending = Math_round (300 * calculateScaleFactor r)\<rparr>,
      cfo = \<lparr>maxCostOptimization = Math_round (150 * calculateScaleFactor r),
             maxBudgetAllocation = Math_round (300 * calculateScaleFactor r)\<rparr>,
      cto = \<lparr>maxInfrastructureCost = Math_round (150 * calculateScaleFactor r)\<rparr>\<rparr>"
  by (simp add: calculateBudgetLimits_def baseBudgets_def Let_def)

lemma calculateBudgetLimits_sel:
  "maxSpending (ceo (calculateBudgetLimits r)) = Math_round (300 * calculateScaleFactor r)"
  "maxCostOptimization (cfo (calculateBudgetLimits r)) = Math_round (150 * calculateScaleFactor r)"
  "maxBudgetAllocation (cfo (calculateBudgetLimits r)) = Math_round (300 * calculateScaleFactor r)"
  "maxInfrastructureCost (cto (calculateBudgetLimits r)) = Math_round (150 * calculateScaleFactor r)"
  by (simp_all add: calculateBudgetLimits_eq)



text \<open>
  C7. The limits are monotonically non-decreasing in the scale factor: when the scale
  factor of one revenue is at most the scale factor of another, each of the four
  limits of the first is at most the corresponding limit of the second. Every scale
  factor lies in the valid range from 1 to 10 (\<open>calculateScaleFactor_range\<close>).
\<close>

theorem limits_mono:
  assumes "calculateScaleFactor r1 \<le> calculateScaleFactor r2"
  shows "maxSpending (ceo (calculateBudgetLimits r1))
           \<le> maxSpending (ceo (calculateBudgetLimits r2))
       \<and> maxCostOptimization (cfo (calculateBudgetLimits r1))
           \<le> maxCostOptimization (cfo (calculateBudgetLimits r2))
       \<and> maxBudgetAllocation (cfo (calculateBudgetLimits r1))
           \<le> maxBudgetAllocation (cfo (calculateBudgetLimits r2))
       \<and> maxInfrastructureCost (cto (calculateBudgetLimits r1))
           \<le> maxInfrastructureCost (cto (calculateBudgetLimits r2))"
  using assms by (simp add: calculateBudgetLimits_sel Math_round_mono)

theorem limits_mono_witness:
  "calculateScaleFactor 1234 \<le> calculateScaleFactor 1235
   \<and> maxSpending (ceo (calculateBudgetLimits 1234)) = 370
   \<and> maxSpending (ceo (calculateBudgetLimits 1235)) = 371
   \<and> maxSpending (ceo (calculateBudgetLimits 1234))
       \<le> maxSpending (ceo (calculateBudgetLimits 1235))
   \<and> maxCostOptimization (cfo (calculateBudgetLimits 1234))
       \<le> maxCostOptimization (cfo (calculateBudgetLimits 1235))
   \<and> maxBudgetAllocation (cfo (calculateBudgetLimits 1234))
       \<le> maxBudgetAllocation (cfo (calculateBudgetLimits 1235))
   \<and> maxInfrastructureCost (cto (calculateBudgetLimits 1234))
       \<le> maxInfrastructureCost (cto (calculateBudgetLimits 1235))"
proof -
  have h: "calculateScaleFactor 1234 \<le> calculateScaleFactor 1235"
    by (simp add: calculateScaleFactor_clamp clamp_def)
  have v: "maxSpending (ceo (calculateBudgetLimits 1234)) = 370"
    "maxSpending (ceo (calculateBudgetLimits 1235)) = 371"
    by (simp_all add: calculateBudgetLimits_sel calculateScaleFactor_clamp clamp_def
        Math_round_def)
  show ?thesis
    using h v limits_mono [OF h] by simp
qed

subsection \<open>The revenue fetcher\<close>

lemma or_zero_field: "or_zero (financial name) = field_or_default financial name"
  by (simp add: or_zero_def field_or_default_def split: option.split)

lemma fetchRevenueData_request:
  "fetchRevenueData u env =
     (case fetchRevenueData_try (analytics_request u env) of
        Inr data \<Rightarrow> (Inr data, [])
      | Inl e \<Rightarrow> (Inr zeroRevenue, [ErrorFetchingRevenueData e]))"
  by (simp add: fetchRevenueData_def analytics_request_def Let_def)

lemma fetchRevenueData_resolves: "\<exists>d. fst (fetchRevenueData u env) = Inr d"
  by (simp add: fetchRevenueData_request split: sum.split)

lemma zero_revenue_base:
  "calculateScaleFactor (totalMRR zeroRevenue) = 1"
  "calculateBudgetLimits (totalMRR zeroRevenue) = baseBudgets"
  by (simp_all add: calculateBudgetLimits_eq calculateScaleFactor_clamp clamp_def zeroRevenue_def
      baseBudgets_def Math_round_def)

text \<open>
  C8. \<^verbatim>\<open>fetchRevenueData\<close> always resolves, whatever the request did. When the
  request is rejected (a transport failure) or answered with a status other than 200,
  it resolves to the zero-valued snapshot, on which the scale factor is 1 and the
  budget limits are the base budgets. When the request is answered with status 200, each
  field of the snapshot is the field of the payload's \<^verbatim>\<open>financial\<close> object, or 0
  when the payload does not have it.
\<close>

theorem fetchRevenueData_soft_failure:
  "(\<exists>d. fst (fetchRevenueData u env) = Inr d)
   \<and> (analytics_request u env = Rejected msg \<longrightarrow>
        fst (fetchRevenueData u env) = Inr zeroRevenue)
   \<and> (analytics_request u env = Response status body \<and> status \<noteq> 200 \<longrightarrow>
        fst (fetchRevenueData u env) = Inr zeroRevenue)
   \<and> zeroRevenue =
        \<lparr>totalMRR = 0,
         revenueByProduct = \<lparr>dealio = 0, quotely = 0, shopflow = 0, shoplink = 0\<rparr>,
         oneTimeRevenue = 0, totalRevenue = 0\<rparr>
   \<and> calculateScaleFactor (totalMRR zeroRevenue) = 1
   \<and> calculateBudgetLimits (totalMRR zeroRevenue) = baseBudgets
   \<and> (analytics_request u env = Response 200 (Data (Some financial)) \<longrightarrow>
        fst (fetchRevenueData u env) =
          Inr \<lparr>totalMRR = field_or_default financial ''mrr'',
               revenueByProduct =
                 \<lparr>dealio = field_or_default financial ''dealioMRR'',
                  quotely = field_or_default financial ''quotelyMRR'',
                  shopflow = field_or_default financial ''shopflowMRR'',
                  shoplink = field_or_default financial ''shoplinkMRR''\<rparr>,
               oneTimeRevenue = field_or_default financial ''oneTimeRevenue'',
               totalRevenue = field_or_default financial ''mrr''
                              + field_or_default financial ''oneTimeRevenue''\<rparr>)
   \<and> (analytics_request u env = Response 200 (Data None) \<longrightarrow>
        fst (fetchRevenueData u env) = Inr zeroRevenue)"
proof -
  have rejected: "fst (fetchRevenueData u env) = Inr zeroRevenue"
    if "analytics_request u env = Rejected msg"
    using that by (simp add: fetchRevenueData_request fetchRevenueData_try_def)
  have status: "fst (fetchRevenueData u env) = Inr zeroRevenue"
    if "analytics_request u env = Response status body" "status \<noteq> 200"
    using that by (simp add: fetchRevenueData_request fetchRevenueData_try_def)
  have mapped: "fst (fetchRevenueData u env) =
          Inr \<lparr>totalMRR = field_or_default financial ''mrr'',
               revenueByProduct =
                 \<lparr>dealio = field_or_default financial ''dealioMRR'',
                  quotely = field_or_default financial ''quotelyMRR'',
                  shopflow = field_or_default financial ''shopflowMRR'',
                  shoplink = field_or_default financial ''shoplinkMRR''\<rparr>,
               oneTimeRevenue = field_or_default financial ''oneTimeRevenue'',
               totalRevenue = field_or_default financial ''mrr''
                              + field_or_default financial ''oneTimeRevenue''\<rparr>"
    if "analytics_request u env = Response 200 (Data (Some financial))"
    using that
    by (simp add: fetchRevenueData_request fetchRevenueData_try_def or_zero_field Let_def)
  have empty: "fst (fetchRevenueData u env) = Inr zeroRevenue"
    if "analytics_request u env = Response 200 (Data None)"
    using that
    by (simp add: fetchRevenueData_request fetchRevenueData_try_def or_zero_def zeroRevenue_def
        Let_def)
  show ?thesis
    using rejected status mapped empty fetchRevenueData_resolves [of u env] zero_revenue_base
    by (simp add: zeroRevenue_def)
qed

theorem fetchRevenueData_soft_failure_witness:
  "fst (fetchRevenueData None
         \<lparr>SUPER_ADMIN_URL = None,
          axios_get = (\<lambda>url. Rejected ''timeout of 10000ms exceeded'')\<rparr>)
     = Inr zeroRevenue
   \<and> fst (fetchRevenueData None
         \<lparr>SUPER_ADMIN_URL = None, axios_get = (\<lambda>url. Response 503 NoData)\<rparr>)
     = Inr zeroRevenue
   \<and> fst (fetchRevenueData None
         \<lparr>SUPER_ADMIN_URL = None,
          axios_get = (\<lambda>url. Response 200 (Data (Some [''mrr'' \<mapsto> 2500])))\<rparr>)
     = Inr \<lparr>totalMRR = 2500,
            revenueByProduct = \<lparr>dealio = 0, quotely = 0, shopflow = 0, shoplink = 0\<rparr>,
            oneTimeRevenue = 0, totalRevenue = 2500\<rparr>
   \<and> fst (fetchRevenueData None
         \<lparr>SUPER_ADMIN_URL = None, axios_get = (\<lambda>url. Response 200 (Data None))\<rparr>)
     = Inr zeroRevenue"
  using fetchRevenueData_soft_failure
      [of None "\<lparr>SUPER_ADMIN_URL = None,
                 axios_get = (\<lambda>url. Rejected ''timeout of 10000ms exceeded'')\<rparr>"
          "''timeout of 10000ms exceeded''"]
    fetchRevenueData_soft_failure
      [of None "\<lparr>SUPER_ADMIN_URL = None, axios_get = (\<lambda>url. Response 503 NoData)\<rparr>"
          _ 503 NoData]
    fetchRevenueData_soft_failure
      [of None "\<lparr>SUPER_ADMIN_URL = None,
                 axios_get = (\<lambda>url. Response 200 (Data (Some [''mrr'' \<mapsto> 2500])))\<rparr>"
          _ _ _ "[''mrr'' \<mapsto> 2500]"]
    fetchRevenueData_soft_failure
      [of None "\<lparr>SUPER_ADMIN_URL = None, axios_get = (\<lambda>url. Response 200 (Data None))\<rparr>"]
  by (simp add: analytics_request_def field_or_default_def)

subsection \<open>The report generator\<close>

lemma generateRevenueReport_of_fetch:
  assumes "fst (fetchRevenueData None env) = Inr d"
  shows "generateRevenueReport env =
     (Inr \<lparr>RevenueReport.revenue = d,
           RevenueReport.scaleFactor = calculateScaleFactor (totalMRR d),
           RevenueReport.budgets = calculateBudgetLimits (totalMRR d),
           recommendations =
             (if totalMRR d < baseRevenue then
                [Sentence ''Revenue below base threshold. Maintain conservative budgets.'',
                 Sentence ''Focus on revenue-generating activities.'']
              else if calculateScaleFactor (totalMRR d) \<ge> maxScaleFactor then
                [Sentence ''Revenue at maximum scaling threshold. Budgets capped at 10x.'',
                 Sentence ''Consider strategic investments beyond base scaling.'']
              else
                [Progress (calculateScaleFactor (totalMRR d))
                   (Math_ceil (totalMRR d / 1000) * 1000)
                   (real_of_int (Math_ceil (totalMRR d / 1000) * 1000) / baseRevenue)])\<rparr>,
      snd (fetchRevenueData None env))"
  using assms
  by (cases "fetchRevenueData None env") (simp add: generateRevenueReport_def Let_def)

lemma generateRevenueReport_resolves: "\<exists>rep. fst (generateRevenueReport env) = Inr rep"
  using fetchRevenueData_resolves [of None env]
  by (auto simp: generateRevenueReport_of_fetch)

text \<open>
  C9. In the report that \<^verbatim>\<open>generateRevenueReport\<close> resolves to, the recommendations
  are chosen by three bands that exclude one another: a total MRR below 1000 gives the
  two sentences of conservative-budget guidance; a scale factor of 10 or more gives the
  two sentences of investment-beyond-cap guidance; otherwise there is one progress
  message with the current scale factor and the next milestone
  \<open>\<lceil>totalMRR / 1000\<rceil> * 1000\<close>. The generator writes nothing to the console beyond
  what the fetch wrote; it has no access to the state of the updater.
\<close>

theorem report_recommendation_bands:
  assumes "fst (generateRevenueReport env) = Inr rep"
  shows "fst (fetchRevenueData None env) = Inr (RevenueReport.revenue rep)
     \<and> RevenueReport.scaleFactor rep
         = calculateScaleFactor (totalMRR (RevenueReport.revenue rep))
     \<and> (totalMRR (RevenueReport.revenue rep) < 1000 \<longrightarrow>
          recommendations rep =
            [Sentence ''Revenue below base threshold. Maintain conservative budgets.'',
             Sentence ''Focus on revenue-generating activities.''])
     \<and> (RevenueReport.scaleFactor rep \<ge> 10 \<longrightarrow>
          recommendations rep =
            [Sentence ''Revenue at maximum scaling threshold. Budgets capped at 10x.'',
             Sentence ''Consider strategic investments beyond base scaling.''])
     \<and> (\<not> totalMRR (RevenueReport.revenue rep) < 1000
          \<and> \<not> RevenueReport.scaleFactor rep \<ge> 10 \<longrightarrow>
          recommendations rep =
            [Progress (RevenueReport.scaleFactor rep)
               (\<lceil>totalMRR (RevenueReport.revenue rep) / 1000\<rceil> * 1000)
               (real_of_int (\<lceil>totalMRR (RevenueReport.revenue rep) / 1000\<rceil> * 1000) / 1000)])
     \<and> \<not> (totalMRR (RevenueReport.revenue rep) < 1000 \<and> RevenueReport.scaleFactor rep \<ge> 10)
     \<and> snd (generateRevenueReport env) = snd (fetchRevenueData None env)"
proof -
  obtain d where d: "fst (fetchRevenueData None env) = Inr d"
    using fetchRevenueData_resolves by blast
  have excl: "\<not> 10 \<le> calculateScaleFactor (totalMRR d)" if "totalMRR d < 1000"
    using that by (simp add: calculateScaleFactor_clamp clamp_def)
  show ?thesis
    using assms excl d
    by (auto simp: generateRevenueReport_of_fetch [OF d] baseRevenue_def maxScaleFactor_def
        Math_ceil_def)
qed

theorem report_recommendation_bands_witness:
  "(\<exists>rep. fst (generateRevenueReport
               \<lparr>SUPER_ADMIN_URL = None,
                axios_get = (\<lambda>url. Response 200 (Data (Some [''mrr'' \<mapsto> 2370])))\<rparr>) = Inr rep
      \<and> recommendations rep = [Progress (237 / 100) 3000 3])
   \<and> (\<exists>rep. fst (generateRevenueReport
               \<lparr>SUPER_ADMIN_URL = None,
                axios_get = (\<lambda>url. Response 200 (Data (Some [''mrr'' \<mapsto> 500])))\<rparr>) = Inr rep
      \<and> recommendations rep =
            [Sentence ''Revenue below base threshold. Maintain conservative budgets.'',
             Sentence ''Focus on revenue-generating activities.''])
   \<and> (\<exists>rep. fst (generateRevenueReport
               \<lparr>SUPER_ADMIN_URL = None,
                axios_get = (\<lambda>url. Response 200 (Data (Some [''mrr'' \<mapsto> 15000])))\<rparr>) = Inr rep
      \<and> recommendations rep =
            [Sentence ''Revenue at maximum scaling threshold. Budgets capped at 10x.'',
             Sentence ''Consider strategic investments beyond base scaling.''])"
proof -
  let ?env = "\<lambda>m. \<lparr>SUPER_ADMIN_URL = None,
                axios_get = (\<lambda>url. Response 200 (Data (Some [''mrr'' \<mapsto> m])))\<rparr>"
  have f: "fst (fetchRevenueData None (?env m)) =
             Inr \<lparr>totalMRR = m,
                  revenueByProduct = \<lparr>dealio = 0, quotely = 0, shopflow = 0, shoplink = 0\<rparr>,
                  oneTimeRevenue = 0, totalRevenue = m\<rparr>" for m
    by (simp add: fetchRevenueData_def fetchRevenueData_try_def or_string_def or_zero_def Let_def)
  obtain r1 where r1: "fst (generateRevenueReport (?env 2370)) = Inr r1"
    using generateRevenueReport_resolves by blast
  obtain r2 where r2: "fst (generateRevenueReport (?env 500)) = Inr r2"
    using generateRevenueReport_resolves by blast
  obtain r3 where r3: "fst (generateRevenueReport (?env 15000)) = Inr r3"
    using generateRevenueReport_resolves by blast
  have v1: "totalMRR (RevenueReport.revenue r1) = 2370"
    using report_recommendation_bands [OF r1, THEN conjunct1, symmetric] by (simp add: f)
  have v2: "totalMRR (RevenueReport.revenue r2) = 500"
    using report_recommendation_bands [OF r2, THEN conjunct1, symmetric] by (simp add: f)
  have v3: "totalMRR (RevenueReport.revenue r3) = 15000"
    using report_recommendation_bands [OF r3, THEN conjunct1, symmetric] by (simp add: f)
  have "recommendations r1 = [Progress (237 / 100) 3000 3]"
    using report_recommendation_bands [OF r1]
    by (simp add: v1 calculateScaleFactor_clamp clamp_def)
  moreover have "recommendations r2 =
            [Sentence ''Revenue below base threshold. Maintain conservative budgets.'',
             Sentence ''Focus on revenue-generating activities.'']"
    using report_recommendation_bands [OF r2] by (simp add: v2)
  moreover have "recommendations r3 =
            [Sentence ''Revenue at maximum scaling threshold. Budgets capped at 10x.'',
             Sentence ''Consider strategic investments beyond base scaling.'']"
    using report_recommendation_bands [OF r3]
    by (simp add: v3 calculateScaleFactor_clamp clamp_def)
  ultimately show ?thesis
    using r1 r2 r3 by simp
qed

subsection \<open>The update reconciler\<close>

lemma updateBudgets_resolved:
  assumes "fst (generateRevenueReport env) = Inr report"
  shows "updateBudgets env today this =
     (case updateBudgets_settled (Inr report) today this of
        (result, this', out') \<Rightarrow> (result, this', snd (generateRevenueReport env) @ out'))"
  using assms by (cases "generateRevenueReport env") (simp add: updateBudgets_def)

text \<open>
  Since the fetcher turns every failure into the zero snapshot, the report always
  resolves and \<^verbatim>\<open>updateBudgets\<close> as composed here never takes its
  \<^verbatim>\<open>catch\<close> branch.
\<close>

lemma updateBudgets_always_succeeds: "success (fst (updateBudgets env today this))"
proof -
  obtain rep where "fst (generateRevenueReport env) = Inr rep"
    using generateRevenueReport_resolves by blast
  then show ?thesis
    by (simp add: updateBudgets_resolved updateBudgets_settled_def Let_def)
qed

text \<open>The report for a payload that carries only \<open>mrr\<close>, used to evaluate concrete calls.\<close>

lemma generateRevenueReport_mrr:
  "generateRevenueReport
     \<lparr>SUPER_ADMIN_URL = None,
      axios_get = (\<lambda>url. Response 200 (Data (Some [''mrr'' \<mapsto> m])))\<rparr> =
   (Inr \<lparr>RevenueReport.revenue =
           \<lparr>totalMRR = m,
            revenueByProduct = \<lparr>dealio = 0, quotely = 0, shopflow = 0, shoplink = 0\<rparr>,
            oneTimeRevenue = 0, totalRevenue = m\<rparr>,
         RevenueReport.scaleFactor = calculateScaleFactor m,
         RevenueReport.budgets = calculateBudgetLimits m,
         recommendations =
           (if m < 1000 then
              [Sentence ''Revenue below base threshold. Maintain conservative budgets.'',
               Sentence ''Focus on revenue-generating activities.'']
            else if calculateScaleFactor m \<ge> 10 then
              [Sentence ''Revenue at maximum scaling threshold. Budgets capped at 10x.'',
               Sentence ''Consider strategic investments beyond base scaling.'']
            else
              [Progress (calculateScaleFactor m) (\<lceil>m / 1000\<rceil> * 1000)
                 (real_of_int (\<lceil>m / 1000\<rceil> * 1000) / 1000)])\<rparr>, [])"
proof -
  have f: "fetchRevenueData None
     \<lparr>SUPER_ADMIN_URL = None,
      axios_get = (\<lambda>url. Response 200 (Data (Some [''mrr'' \<mapsto> m])))\<rparr> =
     (Inr \<lparr>totalMRR = m,
            revenueByProduct = \<lparr>dealio = 0, quotely = 0, shopflow = 0, shoplink = 0\<rparr>,
            oneTimeRevenue = 0, totalRevenue = m\<rparr>, [])"
    by (simp add: fetchRevenueData_def fetchRevenueData_try_def or_string_def or_zero_def Let_def)
  show ?thesis
    using generateRevenueReport_of_fetch [of _ "\<lparr>totalMRR = m,
            revenueByProduct = \<lparr>dealio = 0, quotely = 0, shopflow = 0, shoplink = 0\<rparr>,
            oneTimeRevenue = 0, totalRevenue = m\<rparr>"]
    by (simp add: f baseRevenue_def maxScaleFactor_def Math_ceil_def)
qed

text \<open>
  C1, as stated, fails. On 2025-03-14, with \<open>lastUpdateDate\<close> already 2025-03-14 and
  an MRR of 1000 (scale factor 1, at most 1.1), \<^verbatim>\<open>updateBudgets\<close> returns an object
  with \<open>success = True\<close> that is equal to the object returned when the update is applied
  (here with \<open>lastUpdateDate\<close> 2025-03-13), and \<^verbatim>\<open>runDailyUpdate\<close> prints
  "Budgets updated successfully". The returned result has no field that reports "no
  new action required"; to its caller the second same-day call looks like an applied
  update.
\<close>

theorem same_day_result_is_applied_result:
  "lastUpdateDate \<lparr>lastUpdateDate = Some ''2025-03-14''\<rparr> = Some ''2025-03-14''
   \<and> scaleFactor
        (fst (updateBudgets
               \<lparr>SUPER_ADMIN_URL = None,
                axios_get = (\<lambda>url. Response 200 (Data (Some [''mrr'' \<mapsto> 1000])))\<rparr>
               ''2025-03-14'' \<lparr>lastUpdateDate = Some ''2025-03-14''\<rparr>)) = 1
   \<and> success
        (fst (updateBudgets
               \<lparr>SUPER_ADMIN_URL = None,
                axios_get = (\<lambda>url. Response 200 (Data (Some [''mrr'' \<mapsto> 1000])))\<rparr>
               ''2025-03-14'' \<lparr>lastUpdateDate = Some ''2025-03-14''\<rparr>))
   \<and> fst (updateBudgets
               \<lparr>SUPER_ADMIN_URL = None,
                axios_get = (\<lambda>url. Response 200 (Data (Some [''mrr'' \<mapsto> 1000])))\<rparr>
               ''2025-03-14'' \<lparr>lastUpdateDate = Some ''2025-03-14''\<rparr>)
     = fst (updateBudgets
               \<lparr>SUPER_ADMIN_URL = None,
                axios_get = (\<lambda>url. Response 200 (Data (Some [''mrr'' \<mapsto> 1000])))\<rparr>
               ''2025-03-14'' \<lparr>lastUpdateDate = Some ''2025-03-13''\<rparr>)
   \<and> runDailyUpdate
         \<lparr>SUPER_ADMIN_URL = None,
          axios_get = (\<lambda>url. Response 200 (Data (Some [''mrr'' \<mapsto> 1000])))\<rparr>
         ''2025-03-14'' \<lparr>lastUpdateDate = Some ''2025-03-14''\<rparr>
     = (\<lparr>lastUpdateDate = Some ''2025-03-14''\<rparr>,
        [RunningDailyBudgetUpdate, BudgetsUpdatedSuccessfully,
         ScaleFactorLine 1, RevenueLine 1000])"
  by (simp add: runDailyUpdate_def updateBudgets_def updateBudgets_settled_def
      generateRevenueReport_mrr calculateScaleFactor_clamp clamp_def Let_def)

text \<open>
  C1, amended. If the report resolved, the stored \<open>lastUpdateDate\<close> is the current date
  and the scale factor is at most 1.1, then \<^verbatim>\<open>updateBudgets\<close> performs no update: the
  updater, and with it \<open>lastUpdateDate\<close>, is unchanged, and nothing is written to the
  console after the report (no "Budget Update Recommended" announcement). It returns
  the computed budget limits, scale factor and revenue with \<open>success = True\<close>, the same
  object that an applied update returns.
\<close>

theorem same_day_throttle:
  assumes "fst (generateRevenueReport env) = Inr report"
    and "lastUpdateDate this = Some today"
    and "RevenueReport.scaleFactor report \<le> 11 / 10"
  shows "updateBudgets env today this =
           (\<lparr>success = True,
             budgets = RevenueReport.budgets report,
             scaleFactor = RevenueReport.scaleFactor report,
             revenue = totalMRR (RevenueReport.revenue report),
             error = None\<rparr>,
            this,
            snd (generateRevenueReport env))"
  using assms(2,3)
  by (simp add: updateBudgets_resolved [OF assms(1)] updateBudgets_settled_def Let_def)

theorem same_day_throttle_witness:
  "lastUpdateDate \<lparr>lastUpdateDate = Some ''2025-03-14''\<rparr> = Some ''2025-03-14''
   \<and> calculateScaleFactor 1000 \<le> 11 / 10
   \<and> updateBudgets
        \<lparr>SUPER_ADMIN_URL = None,
         axios_get = (\<lambda>url. Response 200 (Data (Some [''mrr'' \<mapsto> 1000])))\<rparr>
        ''2025-03-14'' \<lparr>lastUpdateDate = Some ''2025-03-14''\<rparr>
     = (\<lparr>success = True,
         budgets = \<lparr>ceo = \<lparr>maxSpending = 300\<rparr>,
                    cfo = \<lparr>maxCostOptimization = 150, maxBudgetAllocation = 300\<rparr>,
                    cto = \<lparr>maxInfrastructureCost = 150\<rparr>\<rparr>,
         scaleFactor = 1, revenue = 1000, error = None\<rparr>,
        \<lparr>lastUpdateDate = Some ''2025-03-14''\<rparr>, [])"
proof -
  let ?env = "\<lparr>SUPER_ADMIN_URL = None,
         axios_get = (\<lambda>url. Response 200 (Data (Some [''mrr'' \<mapsto> 1000])))\<rparr>"
  obtain rep where rep: "fst (generateRevenueReport ?env) = Inr rep"
    using generateRevenueReport_resolves by blast
  have sf: "calculateScaleFactor 1000 = 1"
    by (simp add: calculateScaleFactor_clamp clamp_def)
  have v: "RevenueReport.scaleFactor rep = 1"
    "RevenueReport.budgets rep = calculateBudgetLimits 1000"
    "totalMRR (RevenueReport.revenue rep) = 1000"
    using rep [symmetric] by (simp_all add: generateRevenueReport_mrr sf)
  have h: "RevenueReport.scaleFactor rep \<le> 11 / 10"
    by (simp add: v)
  show ?thesis
    using same_day_throttle [OF rep _ h, of "\<lparr>lastUpdateDate = Some ''2025-03-14''\<rparr>" "''2025-03-14''"]
    by (simp add: v sf generateRevenueReport_mrr calculateBudgetLimits_eq Math_round_def)
qed

text \<open>
  C2. If the report resolved and the throttle condition does not hold (the stored
  \<open>lastUpdateDate\<close> is not the current date, or the scale factor exceeds 1.1), then
  \<^verbatim>\<open>updateBudgets\<close> sets \<open>lastUpdateDate\<close> to the current date, announces the update on
  the console and returns \<open>success = True\<close> with the computed limits. On a new calendar
  day the first disjunct holds whatever the scale factor is.
\<close>

theorem update_applied:
  assumes "fst (generateRevenueReport env) = Inr report"
    and "lastUpdateDate this \<noteq> Some today \<or> RevenueReport.scaleFactor report > 11 / 10"
  shows "updateBudgets env today this =
           (\<lparr>success = True,
             budgets = RevenueReport.budgets report,
             scaleFactor = RevenueReport.scaleFactor report,
             revenue = totalMRR (RevenueReport.revenue report),
             error = None\<rparr>,
            this\<lparr>lastUpdateDate := Some today\<rparr>,
            snd (generateRevenueReport env) @
            [BudgetUpdateRecommended,
             RevenueLine (totalMRR (RevenueReport.revenue report)),
             ScaleFactorLine (RevenueReport.scaleFactor report),
             CeoMaxSpendingLine (maxSpending (ceo (RevenueReport.budgets report))),
             CfoCostOptimizationLine (maxCostOptimization (cfo (RevenueReport.budgets report))),
             CfoBudgetAllocationLine (maxBudgetAllocation (cfo (RevenueReport.budgets report))),
             CtoInfrastructureLine (maxInfrastructureCost (cto (RevenueReport.budgets report)))])"
  using assms(2)
  by (auto simp: updateBudgets_resolved [OF assms(1)] updateBudgets_settled_def Let_def)

theorem update_applied_witness:
  "lastUpdateDate \<lparr>lastUpdateDate = Some ''2025-03-13''\<rparr> \<noteq> Some ''2025-03-14''
   \<and> updateBudgets
        \<lparr>SUPER_ADMIN_URL = None,
         axios_get = (\<lambda>url. Response 200 (Data (Some [''mrr'' \<mapsto> 1000])))\<rparr>
        ''2025-03-14'' \<lparr>lastUpdateDate = Some ''2025-03-13''\<rparr>
     = (\<lparr>success = True,
         budgets = \<lparr>ceo = \<lparr>maxSpending = 300\<rparr>,
                    cfo = \<lparr>maxCostOptimization = 150, maxBudgetAllocation = 300\<rparr>,
                    cto = \<lparr>maxInfrastructureCost = 150\<rparr>\<rparr>,
         scaleFactor = 1, revenue = 1000, error = None\<rparr>,
        \<lparr>lastUpdateDate = Some ''2025-03-14''\<rparr>,
        [BudgetUpdateRecommended, RevenueLine 1000, ScaleFactorLine 1,
         CeoMaxSpendingLine 300, CfoCostOptimizationLine 150,
         CfoBudgetAllocationLine 300, CtoInfrastructureLine 150])
   \<and> calculateScaleFactor 1200 > 11 / 10
   \<and> updateBudgets
        \<lparr>SUPER_ADMIN_URL = None,
         axios_get = (\<lambda>url. Response 200 (Data (Some [''mrr'' \<mapsto> 1200])))\<rparr>
        ''2025-03-14'' \<lparr>lastUpdateDate = Some ''2025-03-14''\<rparr>
     = (\<lparr>success = True,
         budgets = \<lparr>ceo = \<lparr>maxSpending = 360\<rparr>,
                    cfo = \<lparr>maxCostOptimization = 180, maxBudgetAllocation = 360\<rparr>,
                    cto = \<lparr>maxInfrastructureCost = 180\<rparr>\<rparr>,
         scaleFactor = 6 / 5, revenue = 1200, error = None\<rparr>,
        \<lparr>lastUpdateDate = Some ''2025-03-14''\<rparr>,
        [BudgetUpdateRecommended, RevenueLine 1200, ScaleFactorLine (6 / 5),
         CeoMaxSpendingLine 360, CfoCostOptimizationLine 180,
         CfoBudgetAllocationLine 360, CtoInfrastructureLine 180])"
proof -
  let ?env = "\<lambda>m. \<lparr>SUPER_ADMIN_URL = None,
         axios_get = (\<lambda>url. Response 200 (Data (Some [''mrr'' \<mapsto> m])))\<rparr>"
  obtain r1 where r1: "fst (generateRevenueReport (?env 1000)) = Inr r1"
    using generateRevenueReport_resolves by blast
  obtain r2 where r2: "fst (generateRevenueReport (?env 1200)) = Inr r2"
    using generateRevenueReport_resolves by blast
  have sf: "calculateScaleFactor 1000 = 1" "calculateScaleFactor 1200 = 6 / 5"
    by (simp_all add: calculateScaleFactor_clamp clamp_def)
  have v1: "RevenueReport.scaleFactor r1 = 1"
    "RevenueReport.budgets r1 = calculateBudgetLimits 1000"
    "totalMRR (RevenueReport.revenue r1) = 1000"
    using r1 [symmetric] by (simp_all add: generateRevenueReport_mrr sf)
  have v2: "RevenueReport.scaleFactor r2 = 6 / 5"
    "RevenueReport.budgets r2 = calculateBudgetLimits 1200"
    "totalMRR (RevenueReport.revenue r2) = 1200"
    using r2 [symmetric] by (simp_all add: generateRevenueReport_mrr sf)
  have h1: "lastUpdateDate \<lparr>lastUpdateDate = Some ''2025-03-13''\<rparr> \<noteq> Some ''2025-03-14''
            \<or> RevenueReport.scaleFactor r1 > 11 / 10"
    by simp
  have h2: "lastUpdateDate \<lparr>lastUpdateDate = Some ''2025-03-14''\<rparr> \<noteq> Some ''2025-03-14''
            \<or> RevenueReport.scaleFactor r2 > 11 / 10"
    by (simp add: v2)
  show ?thesis
    using update_applied [OF r1 h1] update_applied [OF r2 h2]
    by (simp add: v1 v2 sf generateRevenueReport_mrr calculateBudgetLimits_eq Math_round_def)
qed


subsection \<open>Budgets and scale factor of a result\<close>


end
